theory Spec2Isabelle
  imports Complex_Main
begin

section \<open>Time, binary64 and Decimal\<close>

text \<open>
  The engine (\<^verbatim>\<open>backend/core_utils/hos_compliance.py\<close>) works on Python
  \<^verbatim>\<open>datetime\<close> and \<^verbatim>\<open>timedelta\<close> values, which have microsecond resolution.
  A \<open>datetime\<close> is modelled as its number of microseconds since a fixed epoch, a
  \<open>timedelta\<close> as a number of microseconds (all timestamps of one evaluation are taken
  to be of one kind, naive or aware, so that they can be compared and subtracted).
\<close>

type_synonym datetime = int
type_synonym timedelta = int

text \<open>
  Every hour quantity of the engine is computed by the expression
  \<^verbatim>\<open>Decimal(str(duration.total_seconds() / 3600))\<close>:
  \<^item> \<^verbatim>\<open>total_seconds()\<close> divides the microseconds by \<open>10^6\<close>, correctly rounded to binary64;
  \<^item> \<^verbatim>\<open>/ 3600\<close> is a binary64 division, correctly rounded (round half to even);
  \<^item> \<^verbatim>\<open>str\<close> prints the shortest decimal string that reads back as the same binary64
    (the nearest one to the value, among the shortest);
  \<^item> \<^verbatim>\<open>Decimal\<close> reads that string exactly.

  A binary64 value and a Decimal value are modelled by the rational number they denote.
  Overflow, subnormal numbers and signed zero are not modelled: an elapsed time of a
  \<^verbatim>\<open>timedelta\<close> lies between \<open>10^-6\<close> and \<open>10^14\<close> seconds in absolute value, or is zero.
  Sums and differences of Decimal values are exact in the model (Python rounds them to
  the 28 significant digits of the default context).
\<close>

function ilog :: "int \<Rightarrow> int \<Rightarrow> int" where
  "ilog b n = (if b \<le> 1 \<or> n < b then 0 else 1 + ilog b (n div b))"
  by pat_completeness auto
termination
  by (relation "measure (\<lambda>(b, n). nat n)") (auto intro: int_div_less_self)

declare ilog.simps [simp del]

definition pow_of :: "int \<Rightarrow> int \<Rightarrow> rat" where
  "pow_of b k = (if 0 \<le> k then of_int b ^ nat k else 1 / of_int b ^ nat (- k))"

text \<open>\<open>floor_log b x\<close> is the integer \<open>k\<close> with \<open>b^k \<le> x < b^(k+1)\<close>, for \<open>x > 0\<close>.\<close>

definition floor_log :: "int \<Rightarrow> rat \<Rightarrow> int" where
  "floor_log b x =
     (if 1 \<le> x then ilog b \<lfloor>x\<rfloor> else - (ilog b (\<lceil>1 / x\<rceil> - 1) + 1))"

definition round_half_even :: "rat \<Rightarrow> int" where
  "round_half_even x =
     (let f = \<lfloor>x\<rfloor>; r = x - of_int f
      in if r < 1 / 2 then f else if 1 / 2 < r then f + 1 else if even f then f else f + 1)"

text \<open>The binary64 number nearest to a rational: 53 significant bits, ties to even.\<close>

definition round_to_double :: "rat \<Rightarrow> rat" where
  "round_to_double x =
     (if x = 0 then 0
      else let a = \<bar>x\<bar>; u = pow_of 2 (floor_log 2 a - 52)
           in sgn x * of_int (round_half_even (a / u)) * u)"

text \<open>
  The two decimals of \<open>p\<close> significant digits around a positive number, the nearer one
  first.
\<close>

definition nearest_digits :: "nat \<Rightarrow> rat \<Rightarrow> rat list" where
  "nearest_digits p a =
     (let u = pow_of 10 (floor_log 10 a - int p + 1); lo = of_int \<lfloor>a / u\<rfloor> * u; hi = lo + u
      in if a - lo \<le> hi - a then [lo, hi] else [hi, lo])"

text \<open>
  \<open>shortest_repr n p a\<close> tries \<open>p\<close>, \<open>p + 1\<close>, ... significant digits and returns the
  first decimal that reads back as \<open>a\<close>; after \<open>n\<close> failures it returns the nearest
  decimal of that many digits (17 digits always identify a binary64).
\<close>

fun shortest_repr :: "nat \<Rightarrow> nat \<Rightarrow> rat \<Rightarrow> rat" where
  "shortest_repr 0 p a = hd (nearest_digits p a)"
| "shortest_repr (Suc n) p a =
     (case filter (\<lambda>c. round_to_double c = a) (nearest_digits p a) of
        c # _ \<Rightarrow> c
      | [] \<Rightarrow> shortest_repr n (Suc p) a)"

text \<open>\<^verbatim>\<open>Decimal(str(x))\<close> for a binary64 \<open>x\<close>.\<close>

definition float_repr :: "rat \<Rightarrow> rat" where
  "float_repr x = (if x = 0 then 0 else sgn x * shortest_repr 16 1 \<bar>x\<bar>)"

text \<open>\<^verbatim>\<open>duration.total_seconds()\<close>.\<close>

definition total_seconds :: "timedelta \<Rightarrow> rat" where
  "total_seconds d = round_to_double (of_int d / 1000000)"

text \<open>\<^verbatim>\<open>Decimal(str(duration.total_seconds() / 3600))\<close>.\<close>

definition hours_of :: "timedelta \<Rightarrow> rat" where
  "hours_of d = float_repr (round_to_double (total_seconds d / 3600))"

text \<open>\<^verbatim>\<open>timedelta(hours=h)\<close>, \<^verbatim>\<open>timedelta(minutes=m)\<close>, \<^verbatim>\<open>timedelta(days=n)\<close>.\<close>

definition timedelta_hours :: "int \<Rightarrow> timedelta" where
  "timedelta_hours h = h * 3600000000"

definition timedelta_minutes :: "int \<Rightarrow> timedelta" where
  "timedelta_minutes m = m * 60000000"

definition timedelta_days :: "int \<Rightarrow> timedelta" where
  "timedelta_days n = n * 86400000000"

text \<open>Python exceptions, and the sequencing of computations that may raise.\<close>

datatype py_error = TypeError | ZeroDivisionError | KeyError

definition then_do :: "py_error + 'a \<Rightarrow> ('a \<Rightarrow> py_error + 'b) \<Rightarrow> py_error + 'b" where
  "then_do m f = (case m of Inl e \<Rightarrow> Inl e | Inr x \<Rightarrow> f x)"

section \<open>Data model\<close>

datatype CycleType = SEVENTY_EIGHT | SIXTY_SEVEN | THIRTY_FOUR_HOUR

datatype DutyStatus = OFF_DUTY | SLEEPER_BERTH | DRIVING | ON_DUTY_NOT_DRIVING

datatype ViolationSeverity = MINOR | MAJOR | CRITICAL

datatype ViolationStatus = PENDING | IN_REVIEW | RESOLVED | DISPUTED | ESCALATED

datatype TeamDrivingRole = DRIVER_1 | DRIVER_2 | RELIEF_DRIVER

record HOSLimits =
  max_driving_hours :: rat
  max_on_duty_hours :: rat
  min_off_duty_hours :: rat
  min_30_min_break :: bool
  min_sleeper_berth_hours :: rat
  cycle_hours :: rat
  cycle_days :: int
  max_consecutive_driving_hours :: rat
  min_34_hour_restart_hours :: rat

record SleeperBerthPeriod =
  p_start_time :: datetime
  p_end_time :: "datetime option"
  duration_hours :: rat
  is_valid_for_restart :: bool
  consecutive_hours :: rat
  split_berth_period :: bool

text \<open>
  A violation. Its \<^verbatim>\<open>description\<close>, a display text formatted from the numbers, is
  not modelled.
\<close>

record Violation =
  violation_type :: string
  severity :: ViolationSeverity
  occurred_at :: datetime
  duration_over :: "timedelta option"
  status :: ViolationStatus
  resolution_notes :: string
  resolved_by :: "string option"
  resolved_at :: "datetime option"
  escalation_level :: int
  requires_immediate_action :: bool
  compliance_impact :: string

record TeamDrivingInfo =
  team_id :: string
  driver_1_id :: string
  driver_2_id :: string
  current_driver :: TeamDrivingRole
  handoff_time :: "datetime option"
  handoff_location :: string
  coordination_notes :: string

text \<open>
  Of the analytics, the counts and the score are modelled; the ratios computed in binary64
  (cycle efficiency, restart frequency, average daily hours) and the risk factors derived
  from them are left out, but not the exceptions their computation raises.
\<close>

record ComplianceAnalytics =
  total_violations :: nat
  compliance_score :: rat

record HOSStatus =
  can_drive :: bool
  can_be_on_duty :: bool
  needs_rest :: bool
  hours_used_this_cycle :: rat
  hours_available :: rat
  consecutive_off_duty_hours :: rat
  last_30_min_break :: "datetime option"
  violations :: "Violation list"
  cycle_type :: CycleType
  cycle_start_date :: datetime
  sleeper_berth_periods :: "SleeperBerthPeriod list"
  team_driving_info :: "TeamDrivingInfo option"
  compliance_analytics :: ComplianceAnalytics

text \<open>A log entry is a dictionary with the keys read below.\<close>

record log_entry =
  start_time :: datetime
  end_time :: "datetime option"
  duty_status :: DutyStatus

fun HOS_LIMITS :: "CycleType \<Rightarrow> HOSLimits" where
  "HOS_LIMITS SEVENTY_EIGHT =
     \<lparr>max_driving_hours = 11, max_on_duty_hours = 14, min_off_duty_hours = 10,
      min_30_min_break = True, min_sleeper_berth_hours = 8, cycle_hours = 70, cycle_days = 8,
      max_consecutive_driving_hours = 11, min_34_hour_restart_hours = 34\<rparr>"
| "HOS_LIMITS SIXTY_SEVEN =
     \<lparr>max_driving_hours = 11, max_on_duty_hours = 14, min_off_duty_hours = 10,
      min_30_min_break = True, min_sleeper_berth_hours = 8, cycle_hours = 60, cycle_days = 7,
      max_consecutive_driving_hours = 11, min_34_hour_restart_hours = 34\<rparr>"
| "HOS_LIMITS THIRTY_FOUR_HOUR =
     \<lparr>max_driving_hours = 11, max_on_duty_hours = 14, min_off_duty_hours = 34,
      min_30_min_break = True, min_sleeper_berth_hours = 8, cycle_hours = 70, cycle_days = 8,
      max_consecutive_driving_hours = 11, min_34_hour_restart_hours = 34\<rparr>"

section \<open>The rule registry\<close>

text \<open>
  \<^verbatim>\<open>HOSRuleEngine._load_default_rules\<close>: the rules an engine is created with, in the
  order of the dictionary. Every parameter is a Python \<^verbatim>\<open>float\<close> (\<^verbatim>\<open>11.0\<close>, \<^verbatim>\<open>0.5\<close>, ...);
  the model keeps its value. The administrative operations that change the registry
  afterwards (\<^verbatim>\<open>add_custom_rule\<close>, \<^verbatim>\<open>update_rule\<close>) are not modelled: the evaluation
  below is the one of a freshly created engine.
\<close>

record rule_config =
  rule_severity :: ViolationSeverity
  rule_enabled :: bool
  rule_parameters :: "(string \<times> rat) list"

definition load_default_rules :: "(string \<times> rule_config) list" where
  "load_default_rules =
     [(''driving_limit_11_hours'',
         \<lparr>rule_severity = MAJOR, rule_enabled = True, rule_parameters = [(''max_hours'', 11)]\<rparr>),
      (''on_duty_limit_14_hours'',
         \<lparr>rule_severity = MAJOR, rule_enabled = True, rule_parameters = [(''max_hours'', 14)]\<rparr>),
      (''30_min_break_requirement'',
         \<lparr>rule_severity = MAJOR, rule_enabled = True,
          rule_parameters = [(''break_threshold'', 8), (''min_break'', 1 / 2)]\<rparr>),
      (''cycle_hours_limit'',
         \<lparr>rule_severity = CRITICAL, rule_enabled = True,
          rule_parameters = [(''cycle_hours'', 70), (''cycle_days'', 8)]\<rparr>),
      (''34_hour_restart'',
         \<lparr>rule_severity = CRITICAL, rule_enabled = True, rule_parameters = [(''min_hours'', 34)]\<rparr>),
      (''sleeper_berth_split'',
         \<lparr>rule_severity = MINOR, rule_enabled = True,
          rule_parameters = [(''min_first_period'', 2), (''min_second_period'', 2)]\<rparr>)]"

text \<open>\<^verbatim>\<open>rule_config['parameters'][key]\<close>.\<close>

definition parameter :: "rule_config \<Rightarrow> string \<Rightarrow> py_error + rat" where
  "parameter cfg key =
     (case map_of (rule_parameters cfg) key of None \<Rightarrow> Inl KeyError | Some v \<Rightarrow> Inr v)"

section \<open>Cycle start and 34-hour restart\<close>

definition on_duty :: "DutyStatus \<Rightarrow> bool" where
  "on_duty s = (s = DRIVING \<or> s = ON_DUTY_NOT_DRIVING)"

text \<open>
  The loop of \<^verbatim>\<open>_is_valid_34_hour_restart\<close> over all entries: is there a driving or
  on-duty entry strictly inside the break? Comparing the missing end of an entry (\<^verbatim>\<open>None\<close>)
  with a \<^verbatim>\<open>datetime\<close> raises \<^verbatim>\<open>TypeError\<close>; \<^verbatim>\<open>and\<close> evaluates its operands from the
  left and stops at the first false one.
\<close>

fun on_duty_inside :: "datetime \<Rightarrow> datetime \<Rightarrow> log_entry list \<Rightarrow> py_error + bool" where
  "on_duty_inside s t [] = Inr False"
| "on_duty_inside s t (e # es) =
     (if s < start_time e then
        (case end_time e of
           None \<Rightarrow> Inl TypeError
         | Some t' \<Rightarrow>
             if t' < t \<and> on_duty (duty_status e) then Inr True else on_duty_inside s t es)
      else on_duty_inside s t es)"

definition is_valid_34_hour_restart :: "log_entry \<Rightarrow> log_entry list \<Rightarrow> py_error + bool" where
  "is_valid_34_hour_restart off_duty_entry all_entries =
     (case end_time off_duty_entry of
        None \<Rightarrow> Inr False
      | Some t \<Rightarrow>
          if t - start_time off_duty_entry < timedelta_hours 34 then Inr False
          else then_do (on_duty_inside (start_time off_duty_entry) t all_entries)
                 (\<lambda>found. Inr (\<not> found)))"

text \<open>
  The loop of \<^verbatim>\<open>_calculate_advanced_cycle_start\<close> over the reversed entries: the end of
  the first valid restart it meets.
\<close>

fun find_restart :: "log_entry list \<Rightarrow> log_entry list \<Rightarrow> py_error + datetime option" where
  "find_restart all_entries [] = Inr None"
| "find_restart all_entries (e # es) =
     (if duty_status e = OFF_DUTY \<and> end_time e \<noteq> None then
        then_do (is_valid_34_hour_restart e all_entries)
          (\<lambda>valid. if valid then Inr (end_time e) else find_restart all_entries es)
      else find_restart all_entries es)"

definition calculate_advanced_cycle_start ::
  "HOSLimits \<Rightarrow> log_entry list \<Rightarrow> datetime \<Rightarrow> py_error + datetime" where
  "calculate_advanced_cycle_start limits log_entries current_time =
     (if log_entries = [] then Inr (current_time - timedelta_days (cycle_days limits))
      else then_do (find_restart log_entries (rev log_entries))
        (\<lambda>found.
           let cycle_start =
                 (case found of
                    None \<Rightarrow> current_time - timedelta_days (cycle_days limits)
                  | Some t \<Rightarrow> t);
               max_cycle_start = current_time - timedelta_days (cycle_days limits)
           in Inr (if cycle_start < max_cycle_start then max_cycle_start else cycle_start)))"

section \<open>Sleeper-berth periods\<close>

definition sleeper_period :: "HOSLimits \<Rightarrow> datetime \<Rightarrow> log_entry \<Rightarrow> SleeperBerthPeriod" where
  "sleeper_period limits current_time entry =
     (let duration =
            (case end_time entry of
               Some t \<Rightarrow> t - start_time entry
             | None \<Rightarrow> current_time - start_time entry);
          hours = hours_of duration
      in \<lparr>p_start_time = start_time entry, p_end_time = end_time entry, duration_hours = hours,
          is_valid_for_restart = (min_34_hour_restart_hours limits \<le> hours),
          consecutive_hours = hours, split_berth_period = False\<rparr>)"

text \<open>
  \<^verbatim>\<open>_validate_split_sleeper_berth\<close> sorts the period objects by start time and sets the
  flag on the objects themselves, and returns the list it was given. The model addresses
  a period by its position in that list: the sorted list is the list of positions, sorted
  by the start time of the period at each position (Python's \<^verbatim>\<open>sorted\<close> is stable, as
  \<^const>\<open>sort_key\<close> is). Subtracting the missing end of a period raises \<^verbatim>\<open>TypeError\<close>.
\<close>

definition mark_split :: "nat \<Rightarrow> SleeperBerthPeriod list \<Rightarrow> SleeperBerthPeriod list" where
  "mark_split i ps = ps[i := (ps ! i)\<lparr>split_berth_period := True\<rparr>]"

definition valid_split :: "SleeperBerthPeriod \<Rightarrow> SleeperBerthPeriod \<Rightarrow> bool" where
  "valid_split current_period next_period =
     (2 \<le> duration_hours current_period \<and> 2 \<le> duration_hours next_period \<and>
      8 \<le> duration_hours current_period + duration_hours next_period)"

fun validate_pairs ::
  "nat list \<Rightarrow> SleeperBerthPeriod list \<Rightarrow> py_error + SleeperBerthPeriod list" where
  "validate_pairs (i # j # sorted_periods) ps =
     (case p_end_time (ps ! i) of
        None \<Rightarrow> Inl TypeError
      | Some t \<Rightarrow>
          validate_pairs (j # sorted_periods)
            (if p_start_time (ps ! j) - t \<le> timedelta_hours 24 \<and> valid_split (ps ! i) (ps ! j)
             then mark_split j (mark_split i ps) else ps))"
| "validate_pairs sorted_periods ps = Inr ps"

definition sorted_positions :: "SleeperBerthPeriod list \<Rightarrow> nat list" where
  "sorted_positions sleeper_periods =
     sort_key (\<lambda>i. p_start_time (sleeper_periods ! i)) [0..<length sleeper_periods]"

definition validate_split_sleeper_berth ::
  "SleeperBerthPeriod list \<Rightarrow> py_error + SleeperBerthPeriod list" where
  "validate_split_sleeper_berth sleeper_periods =
     (if length sleeper_periods < 2 then Inr sleeper_periods
      else validate_pairs (sorted_positions sleeper_periods) sleeper_periods)"

definition calculate_sleeper_berth_periods ::
  "HOSLimits \<Rightarrow> log_entry list \<Rightarrow> datetime \<Rightarrow> py_error + SleeperBerthPeriod list" where
  "calculate_sleeper_berth_periods limits log_entries current_time =
     validate_split_sleeper_berth
       (map (sleeper_period limits current_time)
          (filter (\<lambda>entry. duty_status entry = SLEEPER_BERTH) log_entries))"

section \<open>Hour totals\<close>

text \<open>
  The summing loops of the engine have one shape: for each entry that passes a test, add
  \<^verbatim>\<open>Decimal(str((entry['end_time'] - entry['start_time']).total_seconds() / 3600))\<close> to a
  total that starts at \<^verbatim>\<open>Decimal('0.00')\<close>. Subtracting from a missing end raises
  \<^verbatim>\<open>TypeError\<close>.
\<close>

fun total_hours_where :: "(log_entry \<Rightarrow> bool) \<Rightarrow> rat \<Rightarrow> log_entry list \<Rightarrow> py_error + rat" where
  "total_hours_where P hours [] = Inr hours"
| "total_hours_where P hours (e # es) =
     (if P e then
        (case end_time e of
           None \<Rightarrow> Inl TypeError
         | Some t \<Rightarrow> total_hours_where P (hours + hours_of (t - start_time e)) es)
      else total_hours_where P hours es)"

definition calculate_cycle_hours :: "log_entry list \<Rightarrow> py_error + rat" where
  "calculate_cycle_hours cycle_entries =
     total_hours_where (\<lambda>entry. on_duty (duty_status entry)) 0 cycle_entries"

definition closed_off_duty :: "timedelta \<Rightarrow> log_entry \<Rightarrow> bool" where
  "closed_off_duty least entry =
     (duty_status entry = OFF_DUTY \<and>
      (case end_time entry of None \<Rightarrow> False | Some t \<Rightarrow> least \<le> t - start_time entry))"

definition get_last_30_min_break :: "log_entry list \<Rightarrow> datetime option" where
  "get_last_30_min_break log_entries =
     (case find (closed_off_duty (timedelta_minutes 30)) (rev log_entries) of
        None \<Rightarrow> None
      | Some entry \<Rightarrow> end_time entry)"

definition calculate_driving_hours_since_break :: "log_entry list \<Rightarrow> py_error + rat" where
  "calculate_driving_hours_since_break log_entries =
     (case get_last_30_min_break log_entries of
        None \<Rightarrow> total_hours_where (\<lambda>entry. duty_status entry = DRIVING) 0 log_entries
      | Some cutoff_time \<Rightarrow>
          total_hours_where
            (\<lambda>entry. duty_status entry = DRIVING \<and> cutoff_time \<le> start_time entry) 0 log_entries)"

definition calculate_on_duty_hours_since_break ::
  "log_entry list \<Rightarrow> datetime \<Rightarrow> py_error + rat" where
  "calculate_on_duty_hours_since_break cycle_entries current_time =
     (let last_10_hour_break =
            (case find (closed_off_duty (timedelta_hours 10)) (rev cycle_entries) of
               None \<Rightarrow> None
             | Some entry \<Rightarrow> end_time entry);
          cutoff_time =
            (case last_10_hour_break of
               None \<Rightarrow> current_time - timedelta_hours 14
             | Some t \<Rightarrow> t)
      in total_hours_where
           (\<lambda>entry. on_duty (duty_status entry) \<and> cutoff_time \<le> start_time entry) 0
           cycle_entries)"

definition calculate_consecutive_off_duty_hours :: "log_entry list \<Rightarrow> datetime \<Rightarrow> rat" where
  "calculate_consecutive_off_duty_hours log_entries current_time =
     (case find (\<lambda>entry. duty_status entry = OFF_DUTY) (rev log_entries) of
        None \<Rightarrow> 0
      | Some last_off_duty \<Rightarrow>
          (case end_time last_off_duty of
             None \<Rightarrow> 0
           | Some t \<Rightarrow> hours_of (current_time - t)))"

section \<open>Violation detection\<close>

definition new_violation ::
  "string \<Rightarrow> ViolationSeverity \<Rightarrow> datetime \<Rightarrow> bool \<Rightarrow> string \<Rightarrow> Violation" where
  "new_violation vtype sev occurred immediate impact =
     \<lparr>violation_type = vtype, severity = sev, occurred_at = occurred, duration_over = None,
      status = PENDING, resolution_notes = [], resolved_by = None, resolved_at = None,
      escalation_level = 0, requires_immediate_action = immediate,
      compliance_impact = impact\<rparr>"

text \<open>
  \<^verbatim>\<open>_check_driving_limit_rule\<close> and \<^verbatim>\<open>_check_on_duty_limit_rule\<close>. For an entry longer than
  the limit the code appends
  \<^verbatim>\<open>Violation(violation_type='driving_over_11', ..., duration_over=timedelta(hours=float(hours - max_hours)), ...)\<close>
  where \<^verbatim>\<open>hours\<close> is a \<^verbatim>\<open>Decimal\<close> and \<^verbatim>\<open>max_hours\<close>, the rule's parameter, a \<^verbatim>\<open>float\<close>.
  Python compares the two (\<^verbatim>\<open>hours > max_hours\<close>) but does not subtract them:
  \<^verbatim>\<open>Decimal - float\<close> raises \<^verbatim>\<open>TypeError\<close>, so the statement raises before the violation
  exists. \<open>P\<close> is the test on the duty status.
\<close>

fun check_limit_rule :: "(log_entry \<Rightarrow> bool) \<Rightarrow> rat \<Rightarrow> log_entry list \<Rightarrow> py_error + Violation list" where
  "check_limit_rule P max_hours [] = Inr []"
| "check_limit_rule P max_hours (e # es) =
     (if P e then
        (case end_time e of
           None \<Rightarrow> Inl TypeError
         | Some t \<Rightarrow>
             if max_hours < hours_of (t - start_time e) then Inl TypeError
             else check_limit_rule P max_hours es)
      else check_limit_rule P max_hours es)"

definition check_driving_limit_rule :: "rule_config \<Rightarrow> log_entry list \<Rightarrow> py_error + Violation list" where
  "check_driving_limit_rule cfg cycle_entries =
     then_do (parameter cfg ''max_hours'')
       (\<lambda>max_hours. check_limit_rule (\<lambda>entry. duty_status entry = DRIVING) max_hours cycle_entries)"

definition check_on_duty_limit_rule :: "rule_config \<Rightarrow> log_entry list \<Rightarrow> py_error + Violation list" where
  "check_on_duty_limit_rule cfg cycle_entries =
     then_do (parameter cfg ''max_hours'')
       (\<lambda>max_hours. check_limit_rule (\<lambda>entry. on_duty (duty_status entry)) max_hours cycle_entries)"

definition check_30_min_break_rule ::
  "rule_config \<Rightarrow> log_entry list \<Rightarrow> datetime \<Rightarrow> py_error + Violation list" where
  "check_30_min_break_rule cfg cycle_entries current_time =
     then_do (parameter cfg ''break_threshold'')
       (\<lambda>break_threshold. then_do (parameter cfg ''min_break'')
       (\<lambda>min_break. then_do (calculate_driving_hours_since_break cycle_entries)
       (\<lambda>driving_hours.
          if break_threshold < driving_hours then
            Inr [new_violation ''no_30_min_break'' (rule_severity cfg) current_time True
                   ''Driver must take 30-minute break before continuing to drive'']
          else Inr [])))"

text \<open>
  \<^verbatim>\<open>_check_cycle_hours_rule\<close>. Above the limit, the description of the violation formats
  \<^verbatim>\<open>total_hours - cycle_hours\<close>, again a \<^verbatim>\<open>Decimal\<close> minus a \<^verbatim>\<open>float\<close>: \<^verbatim>\<open>TypeError\<close>.
\<close>

definition check_cycle_hours_rule :: "rule_config \<Rightarrow> log_entry list \<Rightarrow> py_error + Violation list" where
  "check_cycle_hours_rule cfg cycle_entries =
     then_do (parameter cfg ''cycle_hours'')
       (\<lambda>limit. then_do (calculate_cycle_hours cycle_entries)
       (\<lambda>total_hours. if limit < total_hours then Inl TypeError else Inr []))"

text \<open>
  \<^verbatim>\<open>_check_34_hour_restart_rule\<close>: every closed off-duty entry of the cycle shorter than
  \<^verbatim>\<open>timedelta(hours=min_hours)\<close> is reported. (The loop over the sleeper-berth periods
  that precedes it only sets a local variable that is not read.)
\<close>

definition timedelta_hours_float :: "rat \<Rightarrow> timedelta" where
  "timedelta_hours_float h = round_half_even (h * 3600000000)"

definition check_34_hour_restart_rule ::
  "rule_config \<Rightarrow> log_entry list \<Rightarrow> SleeperBerthPeriod list \<Rightarrow> py_error + Violation list" where
  "check_34_hour_restart_rule cfg cycle_entries periods =
     then_do (parameter cfg ''min_hours'')
       (\<lambda>min_hours.
          Inr (map (\<lambda>entry. new_violation ''invalid_34_hour_restart'' (rule_severity cfg)
                      (start_time entry) False ''Restart attempt invalid, cycle continues'')
                 (filter
                    (\<lambda>entry. duty_status entry = OFF_DUTY \<and>
                       (case end_time entry of
                          None \<Rightarrow> False
                        | Some t \<Rightarrow> t - start_time entry < timedelta_hours_float min_hours))
                    cycle_entries)))"

definition check_sleeper_berth_split_rule ::
  "rule_config \<Rightarrow> SleeperBerthPeriod list \<Rightarrow> py_error + Violation list" where
  "check_sleeper_berth_split_rule cfg periods =
     then_do (parameter cfg ''min_first_period'')
       (\<lambda>min_first_period. then_do (parameter cfg ''min_second_period'')
       (\<lambda>min_second_period.
          (case filter split_berth_period periods of
             first_period # second_period # _ \<Rightarrow>
               Inr ((if duration_hours first_period < min_first_period then
                       [new_violation ''invalid_split_berth_first'' (rule_severity cfg)
                          (p_start_time first_period) False ''Split berth period invalid'']
                     else []) @
                    (if duration_hours second_period < min_second_period then
                       [new_violation ''invalid_split_berth_second'' (rule_severity cfg)
                          (p_start_time second_period) False ''Split berth period invalid'']
                     else []))
           | _ \<Rightarrow> Inr [])))"

definition check_rule_violation ::
  "string \<Rightarrow> rule_config \<Rightarrow> log_entry list \<Rightarrow> datetime \<Rightarrow> SleeperBerthPeriod list \<Rightarrow>
   py_error + Violation list" where
  "check_rule_violation rule_id cfg cycle_entries current_time periods =
     (if rule_id = ''driving_limit_11_hours'' then check_driving_limit_rule cfg cycle_entries
      else if rule_id = ''on_duty_limit_14_hours'' then check_on_duty_limit_rule cfg cycle_entries
      else if rule_id = ''30_min_break_requirement'' then
        check_30_min_break_rule cfg cycle_entries current_time
      else if rule_id = ''cycle_hours_limit'' then check_cycle_hours_rule cfg cycle_entries
      else if rule_id = ''34_hour_restart'' then
        check_34_hour_restart_rule cfg cycle_entries periods
      else if rule_id = ''sleeper_berth_split'' then
        check_sleeper_berth_split_rule cfg periods
      else Inr [])"

fun check_rules ::
  "(string \<times> rule_config) list \<Rightarrow> log_entry list \<Rightarrow> datetime \<Rightarrow> SleeperBerthPeriod list \<Rightarrow>
   py_error + Violation list" where
  "check_rules [] cycle_entries current_time periods = Inr []"
| "check_rules ((rule_id, cfg) # rules) cycle_entries current_time periods =
     (if \<not> rule_enabled cfg then
        check_rules rules cycle_entries current_time periods
      else
        then_do (check_rule_violation rule_id cfg cycle_entries current_time periods)
          (\<lambda>rule_violations.
             then_do (check_rules rules cycle_entries current_time periods)
               (\<lambda>violations. Inr (rule_violations @ violations))))"

definition check_advanced_violations ::
  "log_entry list \<Rightarrow> datetime \<Rightarrow> SleeperBerthPeriod list \<Rightarrow> py_error + Violation list" where
  "check_advanced_violations cycle_entries current_time periods =
     check_rules load_default_rules cycle_entries current_time periods"

section \<open>Eligibility\<close>

definition critical_violations :: "Violation list \<Rightarrow> Violation list" where
  "critical_violations vs = filter (\<lambda>v. severity v = CRITICAL) vs"

definition can_drive_advanced ::
  "log_entry list \<Rightarrow> datetime \<Rightarrow> Violation list \<Rightarrow> TeamDrivingInfo option \<Rightarrow> py_error + bool" where
  "can_drive_advanced cycle_entries current_time vs team =
     (if critical_violations vs \<noteq> [] then Inr False
      else if (case team of None \<Rightarrow> False | Some info \<Rightarrow> current_driver info \<noteq> DRIVER_1)
      then Inr False
      else then_do (calculate_driving_hours_since_break cycle_entries)
        (\<lambda>driving_hours.
           if 11 \<le> driving_hours then Inr False
           else then_do (calculate_on_duty_hours_since_break cycle_entries current_time)
             (\<lambda>on_duty_hours. if 14 \<le> on_duty_hours then Inr False else Inr True)))"

definition can_be_on_duty_advanced ::
  "log_entry list \<Rightarrow> datetime \<Rightarrow> Violation list \<Rightarrow> TeamDrivingInfo option \<Rightarrow> py_error + bool" where
  "can_be_on_duty_advanced cycle_entries current_time vs team =
     (if critical_violations vs \<noteq> [] then Inr False
      else then_do (calculate_on_duty_hours_since_break cycle_entries current_time)
        (\<lambda>on_duty_hours. if 14 \<le> on_duty_hours then Inr False else Inr True))"

definition needs_rest_advanced ::
  "log_entry list \<Rightarrow> datetime \<Rightarrow> Violation list \<Rightarrow> py_error + bool" where
  "needs_rest_advanced cycle_entries current_time vs =
     (if filter (\<lambda>v. severity v = MAJOR \<or> severity v = CRITICAL) vs \<noteq> [] then Inr True
      else then_do (calculate_driving_hours_since_break cycle_entries)
        (\<lambda>driving_hours.
           then_do (calculate_on_duty_hours_since_break cycle_entries current_time)
             (\<lambda>on_duty_hours.
                if 10 \<le> driving_hours \<or> 13 \<le> on_duty_hours then Inr True else Inr False)))"

section \<open>Analytics\<close>

definition penalty :: "Violation \<Rightarrow> int" where
  "penalty v = (case severity v of CRITICAL \<Rightarrow> 20 | MAJOR \<Rightarrow> 10 | MINOR \<Rightarrow> 5)"

text \<open>
  \<^verbatim>\<open>_calculate_compliance_analytics\<close>. Two of its statements can raise:
  \<^verbatim>\<open>restart_count / days_span * 7\<close> divides by
  \<^verbatim>\<open>(current_time - log_entries[0]['start_time']).days + 1\<close>, which is zero when the first
  entry starts less than a day after \<^verbatim>\<open>current_time\<close> (\<^verbatim>\<open>.days\<close> rounds down); and the loop
  for the daily hours subtracts \<^verbatim>\<open>entry['end_time'] - entry['start_time']\<close> for every
  entry, open or not.
\<close>

definition calculate_compliance_analytics ::
  "log_entry list \<Rightarrow> Violation list \<Rightarrow> datetime \<Rightarrow> py_error + ComplianceAnalytics" where
  "calculate_compliance_analytics log_entries vs current_time =
     (let analytics =
            \<lparr>total_violations = length vs,
             compliance_score = max 0 (100 - of_int (sum_list (map penalty vs)))\<rparr>
      in case log_entries of
           [] \<Rightarrow> Inr analytics
         | first_entry # _ \<Rightarrow>
             if (current_time - start_time first_entry) div timedelta_days 1 + 1 = 0
             then Inl ZeroDivisionError
             else if \<exists>entry \<in> set log_entries. end_time entry = None then Inl TypeError
             else Inr analytics)"

section \<open>The evaluation\<close>

text \<open>
  \<^verbatim>\<open>AdvancedHOSComplianceEngine.calculate_advanced_hos_status\<close>, for the engine that
  \<^verbatim>\<open>create_compliance_engine(cycle_type)\<close> returns, with \<^verbatim>\<open>current_time\<close> given. The steps
  are in the order of the source, so that the first exception raised is the one returned.
  The restart recommendations, a dictionary of display values that no step reads
  afterwards, are not part of the modelled status; computing them repeats
  \<open>calculate_advanced_cycle_start\<close> and \<open>calculate_cycle_hours\<close> and raises nothing new.
\<close>

definition calculate_advanced_hos_status ::
  "CycleType \<Rightarrow> log_entry list \<Rightarrow> datetime \<Rightarrow> TeamDrivingInfo option \<Rightarrow> py_error + HOSStatus" where
  "calculate_advanced_hos_status ct log_entries current_time team =
     (let limits = HOS_LIMITS ct;
          sorted_entries = sort_key start_time log_entries
      in then_do (calculate_advanced_cycle_start limits sorted_entries current_time)
      (\<lambda>cycle_start.
         then_do (calculate_sleeper_berth_periods limits sorted_entries current_time)
      (\<lambda>periods.
         let cycle_entries = filter (\<lambda>entry. cycle_start \<le> start_time entry) sorted_entries
         in then_do (calculate_cycle_hours cycle_entries)
      (\<lambda>hours_used.
         let available = cycle_hours limits - hours_used
         in then_do (check_advanced_violations cycle_entries current_time periods)
      (\<lambda>vs.
         let consecutive_off_duty =
               calculate_consecutive_off_duty_hours sorted_entries current_time;
             last_break = get_last_30_min_break sorted_entries
         in then_do (can_drive_advanced cycle_entries current_time vs team)
      (\<lambda>drive.
         then_do (can_be_on_duty_advanced cycle_entries current_time vs team)
      (\<lambda>duty.
         then_do (needs_rest_advanced cycle_entries current_time vs)
      (\<lambda>rest.
         then_do (calculate_compliance_analytics sorted_entries vs current_time)
      (\<lambda>analytics.
         Inr \<lparr>can_drive = drive, can_be_on_duty = duty, needs_rest = rest,
              hours_used_this_cycle = hours_used, hours_available = available,
              consecutive_off_duty_hours = consecutive_off_duty,
              last_30_min_break = last_break, violations = vs, cycle_type = ct,
              cycle_start_date = cycle_start, sleeper_berth_periods = periods,
              team_driving_info = team, compliance_analytics = analytics\<rparr>)))))))))"

section \<open>The violation resolution workflow\<close>

text \<open>
  \<^verbatim>\<open>ViolationResolutionWorkflow\<close>. A call returns \<^verbatim>\<open>True\<close> or \<^verbatim>\<open>False\<close> and may change the
  violation it is given: the model returns the flag and the violation after the call.
  \<^verbatim>\<open>resolve_violation\<close> raises \<^verbatim>\<open>ValidationError\<close> for an action that is not allowed, catches
  it itself and returns \<^verbatim>\<open>False\<close>. The time of the call (\<^verbatim>\<open>timezone.now()\<close>) is a parameter.
\<close>

fun workflow_steps :: "ViolationStatus \<Rightarrow> string list" where
  "workflow_steps PENDING = [''acknowledge'', ''dispute'', ''escalate'']"
| "workflow_steps IN_REVIEW = [''approve'', ''reject'', ''request_info'']"
| "workflow_steps DISPUTED = [''review'', ''approve'', ''reject'']"
| "workflow_steps ESCALATED = [''review'', ''approve'', ''reject'']"
| "workflow_steps RESOLVED = [''reopen'']"

definition resolve_violation ::
  "Violation \<Rightarrow> string \<Rightarrow> string \<Rightarrow> string \<Rightarrow> datetime \<Rightarrow> bool \<times> Violation" where
  "resolve_violation violation notes by action now =
     (if action \<notin> set (workflow_steps (status violation)) then (False, violation)
      else (True, violation\<lparr>resolution_notes := notes, resolved_by := Some by,
                             resolved_at := Some now, status := RESOLVED\<rparr>))"

definition escalate_violation :: "Violation \<Rightarrow> string \<Rightarrow> bool \<times> Violation" where
  "escalate_violation violation escalation_reason =
     (True, violation\<lparr>status := ESCALATED,
                      escalation_level := escalation_level violation + 1,
                      resolution_notes :=
                        resolution_notes violation @ CHR 0x0A # ''Escalated: '' @ escalation_reason\<rparr>)"

section \<open>Validation of a log entry\<close>

text \<open>
  \<^verbatim>\<open>validate_log_entry\<close>, a utility of the module that the evaluation does not call. The
  entry it is given is a dictionary that may lack a key, or hold \<^verbatim>\<open>None\<close> or a string that
  names no duty status. A time field of \<open>raw_entry\<close> is \<open>None\<close> when the key is absent or
  holds \<^verbatim>\<open>None\<close> (the source treats the two alike); the duty status is \<open>None\<close> when the key
  is absent and \<open>Some None\<close> when it holds \<^verbatim>\<open>None\<close>.
\<close>

record raw_entry =
  raw_start_time :: "datetime option"
  raw_end_time :: "datetime option"
  raw_duty_status :: "string option option"

definition duty_status_values :: "string list" where
  "duty_status_values = [''off_duty'', ''sleeper_berth'', ''driving'', ''on_duty_not_driving'']"

definition validation_errors :: "raw_entry \<Rightarrow> string list" where
  "validation_errors entry =
     (if raw_start_time entry = None then [''Missing required field: start_time''] else []) @
     (if raw_end_time entry = None then [''Missing required field: end_time''] else []) @
     (if raw_duty_status entry = None \<or> raw_duty_status entry = Some None
      then [''Missing required field: duty_status''] else []) @
     (case (raw_start_time entry, raw_end_time entry) of
        (Some s, Some t) \<Rightarrow> if t \<le> s then [''Start time must be before end time''] else []
      | _ \<Rightarrow> []) @
     (case raw_duty_status entry of
        None \<Rightarrow> []
      | Some None \<Rightarrow> [''Invalid duty status: None'']
      | Some (Some st) \<Rightarrow>
          if st \<notin> set duty_status_values then [''Invalid duty status: '' @ st] else [])"

definition validate_log_entry :: "raw_entry \<Rightarrow> bool \<times> string list" where
  "validate_log_entry entry = (validation_errors entry = [], validation_errors entry)"

section \<open>Notions used in the statements\<close>

text \<open>
  The reading of the specification's words that the theorems below compare the code with.

  Two sleeper-berth periods form a valid split when the gap between them (the start of the
  second minus the end of the first) is at most 24 hours, each lasts at least 2 hours and
  the two together at least 8 hours.
\<close>

definition split_pair :: "SleeperBerthPeriod \<Rightarrow> SleeperBerthPeriod \<Rightarrow> bool" where
  "split_pair a b =
     (case p_end_time a of
        None \<Rightarrow> False
      | Some t \<Rightarrow>
          p_start_time b - t \<le> timedelta_hours 24 \<and> 2 \<le> duration_hours a \<and>
          2 \<le> duration_hours b \<and> 8 \<le> duration_hours a + duration_hours b)"

text \<open>
  \<open>pair_marks sp ps k\<close>: in the order \<open>sp\<close> of the positions, the period at position \<open>k\<close> has
  a neighbour with which it forms a valid split.
\<close>

definition pair_marks :: "nat list \<Rightarrow> SleeperBerthPeriod list \<Rightarrow> nat \<Rightarrow> bool" where
  "pair_marks sp ps k =
     list_ex
       (\<lambda>m. (sp ! m = k \<or> sp ! Suc m = k) \<and> split_pair (ps ! (sp ! m)) (ps ! (sp ! Suc m)))
       [0..<length sp - 1]"







section \<open>Basic facts\<close>

lemma then_do_Inl [simp]: "then_do (Inl e) f = Inl e"
  by (simp add: then_do_def)

lemma then_do_Inr [simp]: "then_do (Inr x) f = f x"
  by (simp add: then_do_def)

lemma then_do_eq_Inr: "then_do m f = Inr y \<longleftrightarrow> (\<exists>x. m = Inr x \<and> f x = Inr y)"
  by (cases m) simp_all


lemmas evaluation_defs =
  calculate_advanced_hos_status_def calculate_advanced_cycle_start_def
  is_valid_34_hour_restart_def calculate_sleeper_berth_periods_def
  validate_split_sleeper_berth_def sorted_positions_def calculate_cycle_hours_def
  check_advanced_violations_def load_default_rules_def check_rule_violation_def
  check_driving_limit_rule_def check_on_duty_limit_rule_def check_30_min_break_rule_def
  check_cycle_hours_rule_def check_34_hour_restart_rule_def check_sleeper_berth_split_rule_def
  parameter_def calculate_driving_hours_since_break_def get_last_30_min_break_def
  calculate_on_duty_hours_since_break_def calculate_consecutive_off_duty_hours_def
  can_drive_advanced_def can_be_on_duty_advanced_def needs_rest_advanced_def
  critical_violations_def calculate_compliance_analytics_def closed_off_duty_def
  on_duty_def timedelta_days_def timedelta_hours_def timedelta_minutes_def
  timedelta_hours_float_def round_half_even_def Let_def



lemma hours_of_12h: "hours_of 43200000000 = 12"
  by code_simp


lemma hours_of_minus_1h: "hours_of (- 3600000000) = - 1"
  by code_simp

text \<open>A returned status means that every entry of the log had an end.\<close>

lemma status_entries_closed:
  assumes "calculate_advanced_hos_status ct es now team = Inr st"
  shows "list_all (\<lambda>e. end_time e \<noteq> None) es"
proof -
  from assms obtain vs a where
    "calculate_compliance_analytics (sort_key start_time es) vs now = Inr a"
    by (auto simp: calculate_advanced_hos_status_def Let_def then_do_eq_Inr)
  then have "\<forall>e \<in> set (sort_key start_time es). end_time e \<noteq> None"
    by (cases "sort_key start_time es")
       (auto simp: calculate_compliance_analytics_def Let_def split: if_splits)
  then show ?thesis
    by (simp add: list_all_iff)
qed


text \<open>An entry that ends one hour before it starts.\<close>

lemma reversed_entry:
  "calculate_advanced_hos_status SEVENTY_EIGHT
     [\<lparr>start_time = 3600000000, end_time = Some 0, duty_status = DRIVING\<rparr>] 3600000000 None =
   Inr \<lparr>can_drive = True, can_be_on_duty = True, needs_rest = False,
        hours_used_this_cycle = - 1, hours_available = 71,
        consecutive_off_duty_hours = 0, last_30_min_break = None,
        violations = [], cycle_type = SEVENTY_EIGHT,
        cycle_start_date = - 687600000000, sleeper_berth_periods = [],
        team_driving_info = None,
        compliance_analytics = \<lparr>total_violations = 0, compliance_score = 100\<rparr>\<rparr>"
  by (simp add: evaluation_defs hours_of_minus_1h)

section \<open>The empty log\<close>



section \<open>The resolution workflow\<close>

text \<open>
  Claim C10. Whenever \<open>resolve_violation\<close> succeeds, that is, whenever the action is in the
  allow-list of the violation's status, it sets the status to \<open>RESOLVED\<close> and stamps
  \<open>resolved_by\<close>, \<open>resolved_at\<close> and \<open>resolution_notes\<close>, whatever the allowed action is, and
  changes nothing else.
\<close>

theorem resolve_violation_allowed:
  assumes "action \<in> set (workflow_steps (status v))"
  shows "resolve_violation v notes by action now =
     (True, v\<lparr>resolution_notes := notes, resolved_by := Some by, resolved_at := Some now,
              status := RESOLVED\<rparr>)"
  using assms by (simp add: resolve_violation_def)

text \<open>The witness: \<open>acknowledge\<close> on a pending violation leaves it resolved, not in review.\<close>

theorem resolve_violation_allowed_witness:
  "''acknowledge'' \<in> set (workflow_steps (status (new_violation ''no_30_min_break'' MAJOR 0 True [])))
   \<and> resolve_violation (new_violation ''no_30_min_break'' MAJOR 0 True [])
        ''seen'' ''dispatcher'' ''acknowledge'' 7 =
      (True, \<lparr>violation_type = ''no_30_min_break'', severity = MAJOR, occurred_at = 0,
              duration_over = None, status = RESOLVED, resolution_notes = ''seen'',
              resolved_by = Some ''dispatcher'', resolved_at = Some 7, escalation_level = 0,
              requires_immediate_action = True, compliance_impact = []\<rparr>)"
  using resolve_violation_allowed
    [of "''acknowledge''" "new_violation ''no_30_min_break'' MAJOR 0 True []" "''seen''"
        "''dispatcher''" 7]
  by (simp add: new_violation_def)

text \<open>An action outside the allow-list is refused by \<open>resolve_violation\<close>, which changes nothing.\<close>

lemma resolve_violation_refused:
  assumes "action \<notin> set (workflow_steps (status v))"
  shows "resolve_violation v notes by action now = (False, v)"
  using assms by (simp add: resolve_violation_def)

lemma resolve_pending_refused:
  "resolve_violation (new_violation ''no_30_min_break'' MAJOR 0 True []) notes by ''resolve'' now =
     (False, new_violation ''no_30_min_break'' MAJOR 0 True [])"
  by (simp add: resolve_violation_def new_violation_def)

text \<open>
  Claim C6. An action outside the allow-list of the violation's status must fail and
  change nothing. \<open>resolve_violation\<close> checks the allow-list; \<open>escalate_violation\<close> does not:
  on a resolved violation, whose allow-list is \<open>reopen\<close> alone, it succeeds, sets the status
  to \<open>ESCALATED\<close>, raises the escalation level and appends to the notes.
\<close>

theorem escalate_violation_unchecked:
  "''escalate'' \<notin> set (workflow_steps RESOLVED) \<and>
   escalate_violation
     \<lparr>violation_type = ''no_30_min_break'', severity = MAJOR, occurred_at = 0,
      duration_over = None, status = RESOLVED, resolution_notes = ''seen'',
      resolved_by = Some ''dispatcher'', resolved_at = Some 7, escalation_level = 0,
      requires_immediate_action = True, compliance_impact = []\<rparr> ''late'' =
     (True,
      \<lparr>violation_type = ''no_30_min_break'', severity = MAJOR, occurred_at = 0,
       duration_over = None, status = ESCALATED,
       resolution_notes = ''seen'' @ CHR 0x0A # ''Escalated: late'',
       resolved_by = Some ''dispatcher'', resolved_at = Some 7, escalation_level = 1,
       requires_immediate_action = True, compliance_impact = []\<rparr>)"
  by (simp add: escalate_violation_def)

section \<open>Hours used and hours available\<close>




section \<open>The driving limit\<close>

text \<open>
  Claim C2. A single driving interval of 12 hours should give one \<open>driving_over_11\<close>
  violation with one hour over the limit, and \<open>can_drive\<close> false. The rule finds the
  interval over the limit, but building the violation subtracts the limit, a \<^verbatim>\<open>float\<close>,
  from the hours, a \<^verbatim>\<open>Decimal\<close>: the rule, and with it the evaluation, raises
  \<^verbatim>\<open>TypeError\<close> and no status is returned.
\<close>

theorem twelve_hours_driving_raises:
  "check_driving_limit_rule
     \<lparr>rule_severity = MAJOR, rule_enabled = True, rule_parameters = [(''max_hours'', 11)]\<rparr>
     [\<lparr>start_time = 0, end_time = Some 43200000000, duty_status = DRIVING\<rparr>] = Inl TypeError
   \<and> calculate_advanced_hos_status SEVENTY_EIGHT
       [\<lparr>start_time = 0, end_time = Some 43200000000, duty_status = DRIVING\<rparr>]
       43200000000 None = Inl TypeError"
  by (simp add: evaluation_defs hours_of_12h)

section \<open>Malformed intervals\<close>

text \<open>
  Claim C7, as stated: a list with a malformed interval (a missing end, or an end not after
  the start) makes the evaluation fail as a whole with \<open>InvalidLogData\<close>. The evaluation
  has no such check: an entry that ends an hour before it starts is evaluated, counts as
  \<open>- 1\<close> hour, and a status with 71 hours available is returned.
\<close>

theorem reversed_entry_evaluated:
  "calculate_advanced_hos_status SEVENTY_EIGHT
     [\<lparr>start_time = 3600000000, end_time = Some 0, duty_status = DRIVING\<rparr>] 3600000000 None =
   Inr \<lparr>can_drive = True, can_be_on_duty = True, needs_rest = False,
        hours_used_this_cycle = - 1, hours_available = 71,
        consecutive_off_duty_hours = 0, last_30_min_break = None,
        violations = [], cycle_type = SEVENTY_EIGHT,
        cycle_start_date = - 687600000000, sleeper_berth_periods = [],
        team_driving_info = None,
        compliance_analytics = \<lparr>total_violations = 0, compliance_score = 100\<rparr>\<rparr>"
  by (rule reversed_entry)

text \<open>
  Claim C7, amended: the evaluation does not validate its input and has no
  \<open>InvalidLogData\<close> result. For every list with an interval whose end is missing it produces
  no status: it stops with a Python exception. An interval whose end is not after its
  start is not rejected by the evaluation. The check for both kinds of malformed entry is
  \<open>validate_log_entry\<close>, which the caller has to apply: it reports an entry without an end,
  and an entry whose end is not after its start, as invalid.
\<close>

theorem malformed_intervals:
  "(list_ex (\<lambda>e. end_time e = None) es \<longrightarrow>
      (\<exists>err. calculate_advanced_hos_status ct es now team = Inl err)) \<and>
   (raw_end_time r = None \<or>
      (\<exists>s t. raw_start_time r = Some s \<and> raw_end_time r = Some t \<and> t \<le> s) \<longrightarrow>
      fst (validate_log_entry r) = False)"
proof (intro conjI impI)
  assume missing: "list_ex (\<lambda>e. end_time e = None) es"
  show "\<exists>err. calculate_advanced_hos_status ct es now team = Inl err"
  proof (cases "calculate_advanced_hos_status ct es now team")
    case (Inl err)
    then show ?thesis by blast
  next
    case (Inr st)
    from status_entries_closed [OF Inr] missing show ?thesis
      by (auto simp: list_all_iff list_ex_iff)
  qed
next
  assume "raw_end_time r = None \<or>
    (\<exists>s t. raw_start_time r = Some s \<and> raw_end_time r = Some t \<and> t \<le> s)"
  then show "fst (validate_log_entry r) = False"
    by (auto simp: validate_log_entry_def validation_errors_def)
qed

theorem malformed_intervals_witness:
  "list_ex (\<lambda>e. end_time e = None)
     [\<lparr>start_time = 0, end_time = None, duty_status = OFF_DUTY\<rparr>] \<and>
   (\<exists>err. calculate_advanced_hos_status SEVENTY_EIGHT
      [\<lparr>start_time = 0, end_time = None, duty_status = OFF_DUTY\<rparr>] 0 None = Inl err) \<and>
   (\<exists>s t. raw_start_time
            \<lparr>raw_start_time = Some 3600000000, raw_end_time = Some 0,
             raw_duty_status = Some (Some ''driving'')\<rparr> = Some s \<and>
          raw_end_time
            \<lparr>raw_start_time = Some 3600000000, raw_end_time = Some 0,
             raw_duty_status = Some (Some ''driving'')\<rparr> = Some t \<and> t \<le> s) \<and>
   fst (validate_log_entry
          \<lparr>raw_start_time = Some 3600000000, raw_end_time = Some 0,
           raw_duty_status = Some (Some ''driving'')\<rparr>) = False"
  using malformed_intervals
    [of "[\<lparr>start_time = 0, end_time = None, duty_status = OFF_DUTY\<rparr>]" SEVENTY_EIGHT 0 None
        "\<lparr>raw_start_time = Some 3600000000, raw_end_time = Some 0,
          raw_duty_status = Some (Some ''driving'')\<rparr>"]
  by simp

section \<open>Eligibility to drive\<close>



section \<open>Split sleeper-berth periods\<close>

lemma split_pair_flag [simp]:
  "split_pair (a\<lparr>split_berth_period := x\<rparr>) (b\<lparr>split_berth_period := y\<rparr>) = split_pair a b"
  by (simp add: split_pair_def split: option.splits)

lemma pair_marks_short [simp]: "pair_marks [] ps k = False" "pair_marks [i] ps k = False"
  by (simp_all add: pair_marks_def)







section \<open>Cycle start and restart\<close>










lemma restart_limit [simp]: "min_34_hour_restart_hours (HOS_LIMITS ct) = 34"
  by (cases ct) simp_all






section \<open>Elapsed hours\<close>














end
